theory Spec2Isabelle
  imports Main
begin

section \<open>JavaScript values used by the chain core\<close>

text \<open>
  Strings are \<^typ>\<open>string\<close>: a \<^typ>\<open>char\<close> stands for the code unit of the same number,
  so the model covers the texts whose code units are below 256 (Latin-1). Numbers are
  exact integers; the doubles of the program agree with them below \<open>2^53\<close>, which
  covers every clock reading in seconds. \<open>NaN\<close> and \<open>undefined\<close> are \<open>None\<close>.
\<close>

datatype json =
    JNull
  | JBool bool
  | JNum int
  | JStr string
  | JArr "json list"
  | JObj "(string \<times> json) list"

text \<open>
  What a promise handed to a caller ends as. \<open>Resolve\<close> and \<open>Reject\<close> are the
  calls of \<open>resolve\<close> and \<open>reject\<close>. A \<open>throw\<close> inside a plain executor is caught
  by the \<open>Promise\<close> constructor and rejects the promise. A \<open>throw\<close> inside an
  \<open>async\<close> executor (\<open>new Promise(async (resolve, reject) => ...)\<close>) rejects only
  the executor's own promise: neither \<open>resolve\<close> nor \<open>reject\<close> is called, and the
  promise the caller holds is never settled. That is \<open>Unsettled\<close>, with what was
  thrown (it surfaces as an unhandled rejection).
\<close>

datatype failure =
    Message string
  | ErrorLog "string list"
  | Thrown string

datatype 'a outcome =
    Resolve 'a
  | Reject failure
  | Unsettled failure

text \<open>
  The libraries the two classes call are parameters: \<open>SHA256(s).toString()\<close> of
  crypto-js, \<open>JSON.stringify\<close> and \<open>JSON.parse\<close> (\<open>Inl\<close> is the message of the
  \<open>SyntaxError\<close> thrown), and \<open>bitcoinMessage.verify(message, address, signature,
  null, true)\<close>, which returns a boolean or throws (\<open>Inl\<close> the error's message).
\<close>

record lib =
  SHA256 :: "string \<Rightarrow> string"
  stringify :: "json \<Rightarrow> string"
  parse :: "string \<Rightarrow> string + json"
  verify :: "string \<Rightarrow> string \<Rightarrow> string \<Rightarrow> string + bool"

subsection \<open>Built-in string and number functions\<close>

definition digit_char :: "nat \<Rightarrow> char" where
  "digit_char d = ''0123456789abcdefghijklmnopqrstuvwxyz'' ! d"

text \<open>\<open>Number.prototype.toString()\<close> of an integer.\<close>

function toString :: "int \<Rightarrow> string" where
  "toString n =
     (if n < 0 then CHR ''-'' # toString (- n)
      else if n < 10 then [digit_char (nat n)]
      else toString (n div 10) @ [digit_char (nat (n mod 10))])"
  by pat_completeness auto
termination
  by (relation "measure (\<lambda>n. if n < 0 then nat (- n) + 1 else nat n)") auto

declare toString.simps [simp del]

text \<open>\<open>s.slice(0, -3)\<close>: all but the last three characters (empty when there are fewer).\<close>

definition slice_0_m3 :: "string \<Rightarrow> string" where
  "slice_0_m3 s = take (length s - 3) s"

text \<open>
  \<open>new Date().getTime().toString().slice(0,-3)\<close> at a clock reading of \<open>now\<close>
  milliseconds since the epoch.
\<close>

definition time_string :: "int \<Rightarrow> string" where
  "time_string now = slice_0_m3 (toString now)"

text \<open>\<open>s.split(':')\<close>: the pieces between the colons, at least one piece.\<close>

fun split_colon :: "string \<Rightarrow> string list" where
  "split_colon [] = [[]]"
| "split_colon (c # cs) =
     (if c = CHR '':'' then [] # split_colon cs
      else (case split_colon cs of
              [] \<Rightarrow> [[c]]
            | p # ps \<Rightarrow> (c # p) # ps))"

text \<open>\<open>xs[i]\<close>: \<open>undefined\<close> out of range.\<close>

definition index :: "'a list \<Rightarrow> nat \<Rightarrow> 'a option" where
  "index xs i = (if i < length xs then Some (xs ! i) else None)"

text \<open>White space of \<open>parseInt\<close> and of the regular expression \<open>\s\<close>, below 256.\<close>

definition is_space :: "char \<Rightarrow> bool" where
  "is_space c = ((of_char c :: int) \<in> {9, 10, 11, 12, 13, 32, 160})"

definition digit_value :: "char \<Rightarrow> nat option" where
  "digit_value c =
     (let n = (of_char c :: int) in
      if 48 \<le> n \<and> n \<le> 57 then Some (nat (n - 48))
      else if 97 \<le> n \<and> n \<le> 122 then Some (nat (n - 87))
      else if 65 \<le> n \<and> n \<le> 90 then Some (nat (n - 55))
      else None)"

definition is_digit :: "nat \<Rightarrow> char \<Rightarrow> bool" where
  "is_digit R c = (case digit_value c of None \<Rightarrow> False | Some d \<Rightarrow> d < R)"

definition digits_value :: "nat \<Rightarrow> string \<Rightarrow> int" where
  "digits_value R ds = foldl (\<lambda>acc c. acc * int R + int (the (digit_value c))) 0 ds"

definition has_0x :: "string \<Rightarrow> bool" where
  "has_0x s = (take 2 s = ''0x'' \<or> take 2 s = ''0X'')"

text \<open>
  \<open>parseInt(s, radix)\<close> for a string \<open>s\<close>; \<open>radix\<close> is \<open>None\<close> when the call gives
  none, and only 16 is ever given. White space is skipped, one sign is read, a
  \<open>0x\<close> prefix selects radix 16, the longest run of digits is the value, and no
  digit at all is \<open>NaN\<close>.
\<close>

definition parseInt_string :: "nat option \<Rightarrow> string \<Rightarrow> int option" where
  "parseInt_string radix s =
     (let s1 = dropWhile is_space s;
          negative = (take 1 s1 = ''-'');
          s2 = (if take 1 s1 = ''-'' \<or> take 1 s1 = ''+'' then drop 1 s1 else s1);
          R = (if has_0x s2 then 16 else (case radix of None \<Rightarrow> 10 | Some r \<Rightarrow> r));
          s3 = (if has_0x s2 then drop 2 s2 else s2);
          ds = takeWhile (is_digit R) s3
      in if ds = [] then None
         else Some (if negative then - digits_value R ds else digits_value R ds))"

text \<open>\<open>parseInt(x)\<close> of a string or \<open>undefined\<close>: \<open>parseInt(undefined)\<close> is \<open>NaN\<close>.\<close>

definition parseInt :: "string option \<Rightarrow> int option" where
  "parseInt x = (case x of None \<Rightarrow> None | Some s \<Rightarrow> parseInt_string None s)"

text \<open>Subtraction and the two comparisons of the time window; every comparison with \<open>NaN\<close> is false.\<close>

definition minus_num :: "int option \<Rightarrow> int option \<Rightarrow> int option" where
  "minus_num a b = (case (a, b) of (Some x, Some y) \<Rightarrow> Some (x - y) | _ \<Rightarrow> None)"

definition less_num :: "int option \<Rightarrow> int \<Rightarrow> bool" where
  "less_num a k = (case a of None \<Rightarrow> False | Some x \<Rightarrow> x < k)"

definition ge_num :: "int option \<Rightarrow> int \<Rightarrow> bool" where
  "ge_num a k = (case a of None \<Rightarrow> False | Some x \<Rightarrow> x \<ge> k)"

subsection \<open>The body encoding\<close>

text \<open>
  \<open>Buffer.from(s).toString('hex')\<close>: the UTF-8 bytes of \<open>s\<close>, two lower-case hex
  digits each. A code unit below 128 is one byte, one from 128 to 255 is two.
\<close>

definition utf8 :: "char \<Rightarrow> int list" where
  "utf8 c = (let n = (of_char c :: int) in
             if n < 128 then [n] else [192 + n div 64, 128 + n mod 64])"

definition hex_byte :: "int \<Rightarrow> string" where
  "hex_byte b = [digit_char (nat (b div 16)), digit_char (nat (b mod 16))]"

definition Buffer_hex :: "string \<Rightarrow> string" where
  "Buffer_hex s = concat (map hex_byte (concat (map utf8 s)))"

text \<open>
  \<open>hex2ascii\<close> of the npm package of that name, on a string: white space is removed,
  the rest is read two characters at a time (\<open>hex.substr(i, 2)\<close>, so a last piece may
  be one character), each piece goes through \<open>parseInt(piece, 16)\<close>, and a code
  that is neither \<open>NaN\<close> nor 0 adds \<open>String.fromCharCode(code)\<close>. A code unit above
  255 (only a signed piece such as \<open>-5\<close> gives one) is outside the string model and
  is cut to its low byte.
\<close>

fun pieces :: "string \<Rightarrow> string list" where
  "pieces [] = []"
| "pieces [a] = [[a]]"
| "pieces (a # b # cs) = [a, b] # pieces cs"

definition fromCharCode :: "int \<Rightarrow> char" where
  "fromCharCode code = char_of (code mod 65536)"

definition hex2ascii :: "string \<Rightarrow> string" where
  "hex2ascii hex =
     concat (map (\<lambda>piece. case parseInt_string (Some 16) piece of
                             None \<Rightarrow> []
                           | Some code \<Rightarrow> if code \<noteq> 0 then [fromCharCode code] else [])
                 (pieces (filter (\<lambda>c. \<not> is_space c) hex)))"

section \<open>Block\<close>

text \<open>
  The fields in the order the constructor assigns them, which is the order
  \<open>JSON.stringify(block)\<close> writes them. \<open>hash\<close> and \<open>previousBlockHash\<close> are
  \<open>null\<close> or a string; \<open>time\<close> is the number 0 until the chain stores the seconds
  as a string.
\<close>

record block =
  hash :: "string option"
  height :: int
  body :: string
  time :: json
  previousBlockHash :: "string option"

definition Block :: "lib \<Rightarrow> json \<Rightarrow> block" where
  "Block L data =
     \<lparr> hash = None,
       height = 0,
       body = Buffer_hex (stringify L data),
       time = JNum 0,
       previousBlockHash = None \<rparr>"

definition json_of_string_or_null :: "string option \<Rightarrow> json" where
  "json_of_string_or_null x = (case x of None \<Rightarrow> JNull | Some s \<Rightarrow> JStr s)"

text \<open>The block as the value \<open>JSON.stringify\<close> sees.\<close>

definition block_json :: "block \<Rightarrow> json" where
  "block_json b =
     JObj [(''hash'', json_of_string_or_null (hash b)),
           (''height'', JNum (height b)),
           (''body'', JStr (body b)),
           (''time'', time b),
           (''previousBlockHash'', json_of_string_or_null (previousBlockHash b))]"

text \<open>\<open>SHA256(JSON.stringify(block)).toString()\<close>.\<close>

definition block_digest :: "lib \<Rightarrow> block \<Rightarrow> string" where
  "block_digest L b = SHA256 L (stringify L (block_json b))"

text \<open>
  \<open>validate()\<close>: the value the promise resolves with, and the block as the
  executor leaves it. \<open>currentHash !== newHash\<close> is strict, so a \<open>null\<close> hash
  never equals the recomputed string.
\<close>

definition validate :: "lib \<Rightarrow> block \<Rightarrow> bool outcome \<times> block" where
  "validate L self =
     (let currentHash = hash self;
          self1 = self\<lparr>hash := None\<rparr>;
          newHash = block_digest L self1;
          self2 = self1\<lparr>hash := currentHash\<rparr>
      in if currentHash \<noteq> Some newHash then (Resolve False, self2)
         else (Resolve True, self2))"

definition genesis_message :: string where
  "genesis_message = ''Cannot return data for Genesis Block!''"

text \<open>
  \<open>getBData()\<close>: the body is decoded and parsed first; a \<open>SyntaxError\<close> of
  \<open>JSON.parse\<close> is thrown inside the plain executor, so the promise rejects with it.
  Only then is the height looked at.
\<close>

definition getBData :: "lib \<Rightarrow> block \<Rightarrow> json outcome" where
  "getBData L self =
     (let encodedData = body self;
          decodedData = hex2ascii encodedData
      in case parse L decodedData of
           Inl e \<Rightarrow> Reject (Thrown e)
         | Inr data \<Rightarrow>
             if height self = 0 then Reject (Message genesis_message)
             else Resolve data)"

section \<open>Blockchain\<close>

record blockchain =
  chain :: "block list"
  height :: int

text \<open>A template literal prints \<open>null\<close> as the text \<open>null\<close>.\<close>

definition template :: "string option \<Rightarrow> string" where
  "template x = (case x of None \<Rightarrow> ''null'' | Some s \<Rightarrow> s)"

definition not_valid_message :: "lib \<Rightarrow> block \<Rightarrow> string" where
  "not_valid_message L block = ''Block '' @ stringify L (block_json block) @ '' is not valid''"

definition link_message :: "block \<Rightarrow> block \<Rightarrow> string" where
  "link_message previousBlock block =
     ''Hash of Previous Block ('' @ template (hash previousBlock) @
     '') != PreviousBlockHash ('' @ template (previousBlockHash block) @
     '') of current block''"

subsection \<open>validateChain\<close>

text \<open>
  The executor of \<open>validateChain\<close> has no \<open>await\<close>, so its loop and its
  \<open>resolve(errorLog)\<close> run in one go. Inside the loop \<open>block.validate()\<close> returns a
  promise that is already resolved, and \<open>.then(callback)\<close> only queues the callback
  as a job: it runs after the executor is done, in queue order. A job holds the
  value \<open>validate()\<close> resolved with and the block the callback closes over. The link
  check pushes to \<open>errorLog\<close> at once.
\<close>

type_synonym job = "bool outcome \<times> block"

text \<open>What \<open>errorLog.push(error)\<close> adds for a rejection, as text.\<close>

fun failure_text :: "failure \<Rightarrow> string" where
  "failure_text (Message e) = e"
| "failure_text (Thrown e) = e"
| "failure_text (ErrorLog es) = concat es"

text \<open>
  One job: \<open>.then((validBlock) => { if (!validBlock) errorLog.push(...) })\<close>, with
  \<open>.catch((error) => {errorLog.push(error)})\<close> behind it for a rejected
  \<open>validate()\<close>; a promise that never settles runs neither.
\<close>

fun run_job :: "lib \<Rightarrow> string list \<Rightarrow> job \<Rightarrow> string list" where
  "run_job L errorLog (Resolve validBlock, block) =
     (if \<not> validBlock then errorLog @ [not_valid_message L block] else errorLog)"
| "run_job L errorLog (Reject error, block) = errorLog @ [failure_text error]"
| "run_job L errorLog (Unsettled error, block) = errorLog"

text \<open>
  The loop over \<open>self.chain.entries()\<close> (\<open>h\<close> is the loop's \<open>height\<close>); the
  state is \<open>errorLog\<close> and the queue of jobs. \<open>validate()\<close> leaves the block as it
  found it (lemma \<open>validate_restores\<close> below), so the chain is not threaded
  through.
\<close>

fun validateChain_loop ::
  "lib \<Rightarrow> block list \<Rightarrow> (nat \<times> block) list \<Rightarrow> string list \<times> job list \<Rightarrow> string list \<times> job list" where
  "validateChain_loop L c [] st = st"
| "validateChain_loop L c ((h, block) # blocks) (errorLog, jobs) =
     (let jobs1 = jobs @ [(fst (validate L block), block)];
          errorLog1 =
            (if h > 0 then
               (let previousBlock = c ! (h - 1) in
                if previousBlockHash block \<noteq> hash previousBlock
                then errorLog @ [link_message previousBlock block]
                else errorLog)
             else errorLog)
      in validateChain_loop L c blocks (errorLog1, jobs1))"

text \<open>
  The executor: what \<open>errorLog\<close> holds when \<open>resolve(errorLog)\<close> is called, and the
  jobs still queued at that moment.
\<close>

definition validateChain_executor :: "lib \<Rightarrow> blockchain \<Rightarrow> string list \<times> job list" where
  "validateChain_executor L self =
     validateChain_loop L (chain self) (enumerate 0 (chain self)) ([], [])"

text \<open>
  What a caller receives. The promise is resolved with the array itself, and a
  caller's \<open>.then\<close> or \<open>await\<close> is queued behind the jobs, so by the time the caller
  reads the array the jobs have pushed into it.
\<close>

definition validateChain :: "lib \<Rightarrow> blockchain \<Rightarrow> string list outcome" where
  "validateChain L self =
     (let (errorLog, jobs) = validateChain_executor L self
      in Resolve (foldl (run_job L) errorLog jobs))"

subsection \<open>Appending\<close>

definition pop :: "blockchain \<Rightarrow> blockchain" where
  "pop self = self\<lparr>chain := butlast (chain self), height := height self - 1\<rparr>"

text \<open>
  \<open>_addBlock(block)\<close> at a clock reading of \<open>now\<close> milliseconds: the outcome of the
  promise and the chain afterwards. The \<open>.catch\<close> handler runs when
  \<open>validateChain()\<close> rejects.
\<close>

definition addBlock :: "lib \<Rightarrow> int \<Rightarrow> block \<Rightarrow> blockchain \<Rightarrow> block outcome \<times> blockchain" where
  "addBlock L now block self =
     (let block1 = (if length (chain self) > 0
                    then block\<lparr>previousBlockHash := hash (chain self ! (length (chain self) - 1))\<rparr>
                    else block);
          block2 = block1\<lparr>time := JStr (time_string now)\<rparr>;
          block3 = block2\<lparr>block.height := height self + 1\<rparr>;
          block4 = block3\<lparr>hash := Some (block_digest L block3)\<rparr>;
          self1 = self\<lparr>chain := chain self @ [block4]\<rparr>;
          self2 = self1\<lparr>height := height self1 + 1\<rparr>
      in case validateChain L self2 of
           Resolve errorLog \<Rightarrow>
             if length errorLog > 0 then (Reject (ErrorLog errorLog), pop self2)
             else (Resolve block4, self2)
         | Reject error \<Rightarrow> (Reject error, pop self2)
         | Unsettled error \<Rightarrow> (Unsettled error, self2))"

definition genesis_data :: json where
  "genesis_data = JObj [(''data'', JStr ''Genesis Block'')]"

text \<open>\<open>initializeChain()\<close>, an \<open>async\<close> function: a rejected \<open>await\<close> rejects its promise.\<close>

definition initializeChain :: "lib \<Rightarrow> int \<Rightarrow> blockchain \<Rightarrow> unit outcome \<times> blockchain" where
  "initializeChain L now self =
     (if height self = - 1 then
        (let block = Block L genesis_data
         in case addBlock L now block self of
              (Resolve b, self') \<Rightarrow> (Resolve (), self')
            | (Reject e, self') \<Rightarrow> (Reject e, self')
            | (Unsettled e, self') \<Rightarrow> (Unsettled e, self'))
      else (Resolve (), self))"

text \<open>
  The constructor. \<open>initializeChain()\<close> is not awaited, but the executor of
  \<open>_addBlock\<close> runs up to its \<open>await\<close> inside the call, so the genesis block is
  in the chain when the constructor returns.
\<close>

definition Blockchain :: "lib \<Rightarrow> int \<Rightarrow> blockchain" where
  "Blockchain L now = snd (initializeChain L now \<lparr>chain = [], height = - 1\<rparr>)"

definition getChainHeight :: "blockchain \<Rightarrow> int outcome" where
  "getChainHeight self = Resolve (height self)"

definition requestMessageOwnershipVerification :: "int \<Rightarrow> string \<Rightarrow> string outcome" where
  "requestMessageOwnershipVerification now address =
     Resolve (address @ '':'' @ time_string now @ '':starRegistry'')"

subsection \<open>submitStar\<close>

definition future_message :: string where
  "future_message = ''Invalid Time. Message timestamp is from the future!''"

definition expired_message :: string where
  "expired_message = ''Expired Message. 5 mins grace to sign message exceeded!''"

definition signature_message :: string where
  "signature_message = ''Message signature verification failed!''"

definition star_data :: "string \<Rightarrow> json \<Rightarrow> json" where
  "star_data address star = JObj [(''owner'', JStr address), (''star'', star)]"

text \<open>
  \<open>submitStar(address, message, signature, star)\<close>. The clock is read here (\<open>now\<close>)
  and again in \<open>_addBlock\<close> (\<open>now'\<close>). The executor is \<open>async\<close>:
  \<open>bitcoinMessage.verify\<close> is called before the time window is looked at, and what
  it throws, or what a rejected \<open>await self._addBlock(block)\<close> throws, leaves the
  promise unsettled.
\<close>

definition submitStar ::
  "lib \<Rightarrow> int \<Rightarrow> int \<Rightarrow> string \<Rightarrow> string \<Rightarrow> string \<Rightarrow> json \<Rightarrow> blockchain
     \<Rightarrow> block outcome \<times> blockchain" where
  "submitStar L now now' address message signature star self =
     (let messageTimestamp = parseInt (index (split_colon message) 1);
          currentTime = parseInt (Some (time_string now));
          timeElapsed = minus_num currentTime messageTimestamp
      in case verify L message address signature of
           Inl e \<Rightarrow> (Unsettled (Thrown e), self)
         | Inr verifiedMessage \<Rightarrow>
             if less_num timeElapsed 0 then (Reject (Message future_message), self)
             else if ge_num timeElapsed 300 then (Reject (Message expired_message), self)
             else if \<not> verifiedMessage then (Reject (Message signature_message), self)
             else
               (let block = Block L (star_data address star)
                in case addBlock L now' block self of
                     (Resolve b, self') \<Rightarrow> (Resolve b, self')
                   | (Reject e, self') \<Rightarrow> (Unsettled e, self')
                   | (Unsettled e, self') \<Rightarrow> (Unsettled e, self')))"

subsection \<open>Lookups\<close>

definition getBlockByHash :: "string \<Rightarrow> blockchain \<Rightarrow> block option outcome" where
  "getBlockByHash h self =
     (let matchingBlocks = filter (\<lambda>block. hash block = Some h) (chain self)
      in if length matchingBlocks > 0 then Resolve (Some (matchingBlocks ! 0))
         else Resolve None)"

definition getBlockByHeight :: "int \<Rightarrow> blockchain \<Rightarrow> block option outcome" where
  "getBlockByHeight h self =
     (case index (filter (\<lambda>p. block.height p = h) (chain self)) 0 of
        Some block \<Rightarrow> Resolve (Some block)
      | None \<Rightarrow> Resolve None)"

text \<open>
  Every object is truthy, a promise included, whatever it settles to.
\<close>

definition truthy_promise :: "'a outcome \<Rightarrow> bool" where
  "truthy_promise p = True"

text \<open>
  \<open>getStarsByWalletAddress(address)\<close>. The predicate of \<open>filter\<close> is
  \<open>index > 0 && block.getBData().then(...).catch(...)\<close>: for \<open>index > 0\<close> its value
  is the promise that \<open>.catch\<close> returns. \<open>resolve(stars)\<close> follows at once with the
  blocks the filter kept; the callbacks run later, when a \<open>reject\<close> has no effect
  any more.
\<close>

definition getStarsByWalletAddress :: "lib \<Rightarrow> string \<Rightarrow> blockchain \<Rightarrow> block list outcome" where
  "getStarsByWalletAddress L address self =
     (let stars = map snd (filter (\<lambda>(index, block). index > 0 \<and> truthy_promise (getBData L block))
                                  (enumerate 0 (chain self)))
      in Resolve stars)"

subsection \<open>Runs of the state-changing operations\<close>

datatype operation =
    InitializeChain int
  | AddBlock int block
  | SubmitStar int int string string string json

fun step :: "lib \<Rightarrow> blockchain \<Rightarrow> operation \<Rightarrow> blockchain" where
  "step L self (InitializeChain now) = snd (initializeChain L now self)"
| "step L self (AddBlock now block) = snd (addBlock L now block self)"
| "step L self (SubmitStar now now' address message signature star) =
     snd (submitStar L now now' address message signature star self)"

text \<open>The chain after construction at \<open>now\<close> and a sequence of operations.\<close>

definition run :: "lib \<Rightarrow> int \<Rightarrow> operation list \<Rightarrow> blockchain" where
  "run L now ops = foldl (step L) (Blockchain L now) ops"

section \<open>A concrete library for the examples\<close>

text \<open>
  The theorems below hold for every library. Their examples are evaluated with
  this one: \<open>JSON.stringify\<close> and \<open>JSON.parse\<close> on the values of \<^typ>\<open>json\<close>
  (numbers without fraction or exponent, escapes below 256), a small checksum in
  the place of SHA-256, and a signature scheme in which the signature of a message
  is a text built from the address and the message, and a signature shorter than
  seven characters makes \<open>verify\<close> throw.
\<close>


definition json_ws :: "char \<Rightarrow> bool" where
  "json_ws c = ((of_char c :: int) \<in> {9, 10, 13, 32})"

definition skip_ws :: "string \<Rightarrow> string" where
  "skip_ws s = dropWhile json_ws s"

definition escape_char :: "char \<Rightarrow> string" where
  "escape_char c =
     (let n = (of_char c :: int) in
      if n = 34 then [CHR 0x5C, CHR 0x22]
      else if n = 92 then [CHR 0x5C, CHR 0x5C]
      else if n = 8 then [CHR 0x5C, CHR ''b'']
      else if n = 12 then [CHR 0x5C, CHR ''f'']
      else if n = 10 then [CHR 0x5C, CHR ''n'']
      else if n = 13 then [CHR 0x5C, CHR ''r'']
      else if n = 9 then [CHR 0x5C, CHR ''t'']
      else if n < 32 then [CHR 0x5C, CHR ''u'', CHR ''0'', CHR ''0''] @ hex_byte n
      else [c])"

definition quote :: "string \<Rightarrow> string" where
  "quote s = [CHR 0x22] @ concat (map escape_char s) @ [CHR 0x22]"

fun JSON_stringify :: "json \<Rightarrow> string"
  and stringify_elements :: "json list \<Rightarrow> string"
  and stringify_members :: "(string \<times> json) list \<Rightarrow> string" where
  "JSON_stringify JNull = ''null''"
| "JSON_stringify (JBool b) = (if b then ''true'' else ''false'')"
| "JSON_stringify (JNum i) = toString i"
| "JSON_stringify (JStr s) = quote s"
| "JSON_stringify (JArr xs) = ''['' @ stringify_elements xs @ '']''"
| "JSON_stringify (JObj ms) = ''{'' @ stringify_members ms @ ''}''"
| "stringify_elements [] = []"
| "stringify_elements [x] = JSON_stringify x"
| "stringify_elements (x # y # xs) = JSON_stringify x @ '','' @ stringify_elements (y # xs)"
| "stringify_members [] = []"
| "stringify_members [(k, v)] = quote k @ '':'' @ JSON_stringify v"
| "stringify_members ((k, v) # m # ms) =
     quote k @ '':'' @ JSON_stringify v @ '','' @ stringify_members (m # ms)"

definition unescape :: "char \<Rightarrow> char option" where
  "unescape e =
     (if e = CHR 0x22 \<or> e = CHR 0x5C \<or> e = CHR ''/'' then Some e
      else if e = CHR ''b'' then Some (CHR 0x08)
      else if e = CHR ''f'' then Some (CHR 0x0C)
      else if e = CHR ''n'' then Some (CHR 0x0A)
      else if e = CHR ''r'' then Some (CHR 0x0D)
      else if e = CHR ''t'' then Some (CHR 0x09)
      else None)"

definition cons_result :: "char \<Rightarrow> (string \<times> string) option \<Rightarrow> (string \<times> string) option" where
  "cons_result c r = (case r of None \<Rightarrow> None | Some (s, rest) \<Rightarrow> Some (c # s, rest))"

fun parse_string :: "string \<Rightarrow> (string \<times> string) option" where
  "parse_string [] = None"
| "parse_string (c # cs) =
     (if c = CHR 0x22 then Some ([], cs)
      else if c = CHR 0x5C then
        (case cs of
           [] \<Rightarrow> None
         | e # cs1 \<Rightarrow>
             if e = CHR ''u'' then
               (if length cs1 \<ge> 4 \<and> list_all (is_digit 16) (take 4 cs1)
                   \<and> digits_value 16 (take 4 cs1) < 256
                then cons_result (fromCharCode (digits_value 16 (take 4 cs1))) (parse_string (drop 4 cs1))
                else None)
             else (case unescape e of
                     None \<Rightarrow> None
                   | Some ch \<Rightarrow> cons_result ch (parse_string cs1)))
      else if (of_char c :: int) < 32 then None
      else cons_result c (parse_string cs))"


definition parse_number :: "string \<Rightarrow> (json \<times> string) option" where
  "parse_number s =
     (let negative = (take 1 s = ''-'');
          s1 = (if negative then drop 1 s else s);
          ds = (if take 1 s1 = ''0'' then ''0'' else takeWhile (is_digit 10) s1);
          rest = drop (length ds) s1
      in if ds = [] then None
         else if take 1 rest = ''.'' \<or> take 1 rest = ''e'' \<or> take 1 rest = ''E'' then None
         else Some (JNum (if negative then - digits_value 10 ds else digits_value 10 ds), rest))"

fun parse_value :: "nat \<Rightarrow> string \<Rightarrow> (json \<times> string) option"
  and parse_elements :: "nat \<Rightarrow> string \<Rightarrow> (json list \<times> string) option"
  and parse_members :: "nat \<Rightarrow> string \<Rightarrow> ((string \<times> json) list \<times> string) option" where
  "parse_value 0 s = None"
| "parse_value (Suc n) s =
     (let t = skip_ws s in
      if take 1 t = [CHR 0x22] then
        (case parse_string (drop 1 t) of
           None \<Rightarrow> None
         | Some (str, rest) \<Rightarrow> Some (JStr str, rest))
      else if take 1 t = ''['' then
        (if take 1 (skip_ws (drop 1 t)) = '']'' then Some (JArr [], drop 1 (skip_ws (drop 1 t)))
         else (case parse_elements n (drop 1 t) of
                 None \<Rightarrow> None
               | Some (xs, rest) \<Rightarrow> Some (JArr xs, rest)))
      else if take 1 t = ''{'' then
        (if take 1 (skip_ws (drop 1 t)) = ''}'' then Some (JObj [], drop 1 (skip_ws (drop 1 t)))
         else (case parse_members n (drop 1 t) of
                 None \<Rightarrow> None
               | Some (ms, rest) \<Rightarrow> Some (JObj ms, rest)))
      else if take 4 t = ''true'' then Some (JBool True, drop 4 t)
      else if take 5 t = ''false'' then Some (JBool False, drop 5 t)
      else if take 4 t = ''null'' then Some (JNull, drop 4 t)
      else parse_number t)"
| "parse_elements 0 s = None"
| "parse_elements (Suc n) s =
     (case parse_value n s of
        None \<Rightarrow> None
      | Some (x, rest) \<Rightarrow>
          (let t = skip_ws rest in
           if take 1 t = '']'' then Some ([x], drop 1 t)
           else if take 1 t = '','' then
             (case parse_elements n (drop 1 t) of
                None \<Rightarrow> None
              | Some (xs, rest1) \<Rightarrow> Some (x # xs, rest1))
           else None))"
| "parse_members 0 s = None"
| "parse_members (Suc n) s =
     (let t = skip_ws s in
      if take 1 t = [CHR 0x22] then
        (case parse_string (drop 1 t) of
           None \<Rightarrow> None
         | Some (k, rest) \<Rightarrow>
             (let t1 = skip_ws rest in
              if take 1 t1 = '':'' then
                (case parse_value n (drop 1 t1) of
                   None \<Rightarrow> None
                 | Some (v, rest1) \<Rightarrow>
                     (let t2 = skip_ws rest1 in
                      if take 1 t2 = ''}'' then Some ([(k, v)], drop 1 t2)
                      else if take 1 t2 = '','' then
                        (case parse_members n (drop 1 t2) of
                           None \<Rightarrow> None
                         | Some (ms, rest2) \<Rightarrow> Some ((k, v) # ms, rest2))
                      else None))
              else None))
      else None)"

definition syntax_error :: string where
  "syntax_error = ''SyntaxError''"

definition JSON_parse :: "string \<Rightarrow> string + json" where
  "JSON_parse text =
     (case parse_value (Suc (length text)) text of
        None \<Rightarrow> Inl syntax_error
      | Some (v, rest) \<Rightarrow> if skip_ws rest = [] then Inr v else Inl syntax_error)"

definition toy_sha :: "string \<Rightarrow> string" where
  "toy_sha s = toString (foldl (\<lambda>a c. (a * 31 + of_char c) mod 65521) (7::int) s)"

definition toy_signature :: "string \<Rightarrow> string \<Rightarrow> string" where
  "toy_signature address message = ''signed:'' @ address @ '':'' @ message"

definition toy_verify :: "string \<Rightarrow> string \<Rightarrow> string \<Rightarrow> string + bool" where
  "toy_verify message address signature =
     (if length signature < 7 then Inl ''Invalid signature length''
      else Inr (signature = toy_signature address message))"

definition demo :: lib where
  "demo = \<lparr> SHA256 = toy_sha, stringify = JSON_stringify, parse = JSON_parse, verify = toy_verify \<rparr>"

subsection \<open>Example values\<close>

definition alice :: string where
  "alice = ''1A2b3C''"

text \<open>The challenge \<open>requestMessageOwnershipVerification\<close> hands out at 1700000000123 ms.\<close>

definition challenge :: string where
  "challenge = ''1A2b3C:1700000000:starRegistry''"

text \<open>
  The genesis block of a chain constructed at 1700000000123 ms, and the block of a
  star \<open>'Vega'\<close> appended to that chain at 1700000010456 ms (lemmas \<open>chain0_run\<close>
  and \<open>chain1_run\<close> below).
\<close>

definition genesis0 :: block where
  "genesis0 =
     \<lparr> hash = Some ''11169'',
       height = 0,
       body = ''7b2264617461223a2247656e6573697320426c6f636b227d'',
       time = JStr ''1700000000'',
       previousBlockHash = None \<rparr>"

definition star1 :: block where
  "star1 =
     \<lparr> hash = Some ''8130'',
       height = 1,
       body = ''7b226f776e6572223a22314132623343222c2273746172223a2256656761227d'',
       time = JStr ''1700000010'',
       previousBlockHash = Some ''11169'' \<rparr>"

definition chain0 :: blockchain where
  "chain0 = \<lparr> chain = [genesis0], height = 0 \<rparr>"

definition chain1 :: blockchain where
  "chain1 = \<lparr> chain = [genesis0, star1], height = 1 \<rparr>"



text \<open>A block of height 0 whose body decodes to the single character \<open>{\<close>.\<close>

definition truncated_block :: block where
  "truncated_block = (Block demo genesis_data)\<lparr>body := ''7b''\<rparr>"

text \<open>The chain with one star after the body of the block at height 1 was overwritten.\<close>

definition tampered :: blockchain where
  "tampered = \<lparr> chain = [genesis0, star1\<lparr>body := ''7b7d''\<rparr>], height = 1 \<rparr>"

text \<open>A star whose name is the one character U+00E9.\<close>

definition e_acute :: json where
  "e_acute = JStr [CHR 0xE9]"

section \<open>Auxiliary notions for the statements\<close>

text \<open>The test \<open>validate()\<close> makes, as a predicate.\<close>

definition valid_block :: "lib \<Rightarrow> block \<Rightarrow> bool" where
  "valid_block L b = (hash b = Some (block_digest L (b\<lparr>hash := None\<rparr>)))"

text \<open>What the link checks of the loop push, and what the queued jobs push.\<close>

definition link_errors :: "block list \<Rightarrow> (nat \<times> block) list \<Rightarrow> string list" where
  "link_errors c es =
     concat (map (\<lambda>(h, block).
                    if h > 0 \<and> previousBlockHash block \<noteq> hash (c ! (h - 1))
                    then [link_message (c ! (h - 1)) block] else []) es)"

definition invalid_errors :: "lib \<Rightarrow> block list \<Rightarrow> string list" where
  "invalid_errors L bs =
     concat (map (\<lambda>block. if valid_block L block then [] else [not_valid_message L block]) bs)"

text \<open>The block as \<open>_addBlock\<close> has filled it in when it pushes it.\<close>

definition filled :: "lib \<Rightarrow> int \<Rightarrow> block \<Rightarrow> blockchain \<Rightarrow> block" where
  "filled L now block self =
     (let block3 = block\<lparr>previousBlockHash :=
                          (if length (chain self) > 0 then hash (last (chain self))
                           else previousBlockHash block),
                        time := JStr (time_string now),
                        block.height := height self + 1\<rparr>
      in block3\<lparr>hash := Some (block_digest L block3)\<rparr>)"

text \<open>The chain with one more block, before validation.\<close>

definition pushed :: "block \<Rightarrow> blockchain \<Rightarrow> blockchain" where
  "pushed b self = self\<lparr>chain := chain self @ [b], height := height self + 1\<rparr>"

text \<open>
  The spec's words for \<open>getStarsByWalletAddress\<close>, to compare the code with: scan
  the chain without index 0, decode each block's payload, keep those whose
  \<open>owner\<close> is the address, return their \<open>star\<close> values in chain order.
\<close>

fun field :: "string \<Rightarrow> json \<Rightarrow> json option" where
  "field k (JObj ms) = map_of ms k"
| "field k v = None"

definition spec_stars :: "lib \<Rightarrow> string \<Rightarrow> block list \<Rightarrow> json list" where
  "spec_stars L address c =
     concat (map (\<lambda>block. case getBData L block of
                             Resolve data \<Rightarrow>
                               (if field ''owner'' data = Some (JStr address)
                                then (case field ''star'' data of Some st \<Rightarrow> [st] | None \<Rightarrow> [])
                                else [])
                           | _ \<Rightarrow> [])
                 (drop 1 c))"

text \<open>A text of ASCII characters other than NUL.\<close>

definition ascii_text :: "string \<Rightarrow> bool" where
  "ascii_text s = list_all (\<lambda>c. 0 < (of_char c :: int) \<and> (of_char c :: int) < 128) s"

text \<open>What holds of every chain the operations build (theorem \<open>run_chain_ok\<close> below).\<close>

definition chain_ok :: "lib \<Rightarrow> blockchain \<Rightarrow> bool" where
  "chain_ok L s =
     (validateChain L s = Resolve [] \<and>
      chain s \<noteq> [] \<and>
      height s = int (length (chain s)) - 1 \<and>
      map block.height (chain s) = map int [0..<length (chain s)] \<and>
      previousBlockHash (chain s ! 0) = None \<and>
      body (chain s ! 0) = Buffer_hex (stringify L genesis_data))"

section \<open>Lemmas\<close>

subsection \<open>validate and validateChain\<close>

lemma validate_restores: "snd (validate L b) = b"
  by (simp add: validate_def Let_def)

lemma validate_result: "fst (validate L b) = Resolve (valid_block L b)"
  by (simp add: validate_def valid_block_def Let_def)

lemma validateChain_loop_eq:
  "validateChain_loop L c es (errorLog, jobs) =
     (errorLog @ link_errors c es, jobs @ map (\<lambda>(h, b). (fst (validate L b), b)) es)"
proof (induction es arbitrary: errorLog jobs)
  case Nil
  show ?case by (simp add: link_errors_def)
next
  case (Cons e es)
  obtain h b where e: "e = (h, b)" by (cases e)
  show ?case
    unfolding e by (simp add: Cons.IH Let_def link_errors_def)
qed

lemma foldl_run_job:
  "foldl (run_job L) errorLog (map (\<lambda>(h, b). (fst (validate L b), b)) es) =
     errorLog @ invalid_errors L (map snd es)"
proof (induction es arbitrary: errorLog)
  case Nil
  show ?case by (simp add: invalid_errors_def)
next
  case (Cons e es)
  obtain h b where e: "e = (h, b)" by (cases e)
  have step: "run_job L errorLog (fst (validate L b), b) =
        errorLog @ (if valid_block L b then [] else [not_valid_message L b])"
    by (simp add: validate_result)
  show ?case
    unfolding e using step Cons.IH by (simp add: invalid_errors_def)
qed

lemma validateChain_executor_eq:
  "validateChain_executor L s =
     (link_errors (chain s) (enumerate 0 (chain s)),
      map (\<lambda>(h, b). (fst (validate L b), b)) (enumerate 0 (chain s)))"
  by (simp add: validateChain_executor_def validateChain_loop_eq)

lemma validateChain_eq:
  "validateChain L s =
     Resolve (link_errors (chain s) (enumerate 0 (chain s)) @ invalid_errors L (chain s))"
  by (simp add: validateChain_def validateChain_executor_eq foldl_run_job)

lemma invalid_errors_empty: "invalid_errors L bs = [] \<longleftrightarrow> (\<forall>b \<in> set bs. valid_block L b)"
  by (induction bs) (auto simp: invalid_errors_def)

lemma invalid_errors_mem:
  "b \<in> set bs \<Longrightarrow> \<not> valid_block L b \<Longrightarrow> not_valid_message L b \<in> set (invalid_errors L bs)"
  by (induction bs) (auto simp: invalid_errors_def)

lemma link_errors_mem:
  "(h, b) \<in> set es \<Longrightarrow> h > 0 \<Longrightarrow> previousBlockHash b \<noteq> hash (c ! (h - 1)) \<Longrightarrow>
     link_message (c ! (h - 1)) b \<in> set (link_errors c es)"
  by (induction es) (auto simp: link_errors_def)

lemma link_errors_empty:
  "link_errors c es = [] \<longleftrightarrow>
     (\<forall>(h, b) \<in> set es. h > 0 \<longrightarrow> previousBlockHash b = hash (c ! (h - 1)))"
  by (induction es) (auto simp: link_errors_def split: if_splits)

lemma in_set_enumerate0: "(i, b) \<in> set (enumerate 0 c) \<longleftrightarrow> i < length c \<and> b = c ! i"
  by (auto simp: in_set_enumerate_eq)

lemma link_errors_chain_empty:
  "link_errors c (enumerate 0 c) = [] \<longleftrightarrow>
     (\<forall>i. 0 < i \<and> i < length c \<longrightarrow> previousBlockHash (c ! i) = hash (c ! (i - 1)))"
  by (auto simp: link_errors_empty in_set_enumerate0)

lemma validateChain_empty:
  "validateChain L s = Resolve [] \<longleftrightarrow>
     (\<forall>i. 0 < i \<and> i < length (chain s) \<longrightarrow>
            previousBlockHash (chain s ! i) = hash (chain s ! (i - 1))) \<and>
     (\<forall>b \<in> set (chain s). valid_block L b)"
  by (simp add: validateChain_eq link_errors_chain_empty invalid_errors_empty)

subsection \<open>Appending and the chain invariant\<close>

lemma pop_pushed: "pop (pushed b s) = s"
  by (simp add: pop_def pushed_def)

lemma addBlock_eq:
  "addBlock L now b s =
     (case validateChain L (pushed (filled L now b s) s) of
        Resolve errorLog \<Rightarrow>
          if errorLog \<noteq> [] then (Reject (ErrorLog errorLog), s)
          else (Resolve (filled L now b s), pushed (filled L now b s) s)
      | Reject e \<Rightarrow> (Reject e, s)
      | Unsettled e \<Rightarrow> (Unsettled e, pushed (filled L now b s) s))"
  by (cases "chain s = []")
    (simp_all add: addBlock_def filled_def pushed_def pop_def Let_def last_conv_nth
       split: outcome.splits)

lemma validateChain_pushed:
  "validateChain L (pushed b s) = Resolve [] \<longleftrightarrow>
     validateChain L s = Resolve [] \<and>
     (chain s \<noteq> [] \<longrightarrow> previousBlockHash b = hash (last (chain s))) \<and>
     valid_block L b"
proof -
  let ?c = "chain s"
  have links: "(\<forall>i. 0 < i \<and> i < length (?c @ [b]) \<longrightarrow>
                  previousBlockHash ((?c @ [b]) ! i) = hash ((?c @ [b]) ! (i - 1))) \<longleftrightarrow>
               (\<forall>i. 0 < i \<and> i < length ?c \<longrightarrow> previousBlockHash (?c ! i) = hash (?c ! (i - 1))) \<and>
               (?c \<noteq> [] \<longrightarrow> previousBlockHash b = hash (last ?c))"
    (is "?L \<longleftrightarrow> ?R1 \<and> ?R2")
  proof
    assume l: ?L
    have "?R1"
    proof (intro allI impI)
      fix i assume i: "0 < i \<and> i < length ?c"
      then have "previousBlockHash ((?c @ [b]) ! i) = hash ((?c @ [b]) ! (i - 1))"
        using l by simp
      moreover from i have "i - 1 < length ?c" by arith
      ultimately show "previousBlockHash (?c ! i) = hash (?c ! (i - 1))"
        using i by (simp add: nth_append)
    qed
    moreover have "?R2"
    proof
      assume ne: "?c \<noteq> []"
      then have "0 < length ?c \<and> length ?c < length (?c @ [b])" by simp
      with l have "previousBlockHash ((?c @ [b]) ! length ?c) = hash ((?c @ [b]) ! (length ?c - 1))"
        by blast
      with ne show "previousBlockHash b = hash (last ?c)"
        by (simp add: nth_append last_conv_nth)
    qed
    ultimately show "?R1 \<and> ?R2" ..
  next
    assume r: "?R1 \<and> ?R2"
    show ?L
    proof (intro allI impI)
      fix i assume i: "0 < i \<and> i < length (?c @ [b])"
      show "previousBlockHash ((?c @ [b]) ! i) = hash ((?c @ [b]) ! (i - 1))"
      proof (cases "i < length ?c")
        case True
        moreover from True have "i - 1 < length ?c" by arith
        ultimately show ?thesis using i r by (simp add: nth_append)
      next
        case False
        with i have "i = length ?c" by simp
        with i r show ?thesis by (simp add: nth_append last_conv_nth)
      qed
    qed
  qed
  show ?thesis
    unfolding validateChain_empty using links by (auto simp: pushed_def)
qed

lemma valid_filled: "hash b = None \<Longrightarrow> valid_block L (filled L now b s)"
  by (cases b) (simp add: valid_block_def filled_def Let_def)

lemma addBlock_cases:
  "addBlock L now b s = (Resolve (filled L now b s), pushed (filled L now b s) s) \<and>
     validateChain L (pushed (filled L now b s) s) = Resolve []
   \<or> (\<exists>errorLog. errorLog \<noteq> [] \<and> addBlock L now b s = (Reject (ErrorLog errorLog), s))"
  by (simp add: addBlock_eq validateChain_eq)

lemma addBlock_fresh:
  assumes "validateChain L s = Resolve []" and "hash b = None"
  shows "addBlock L now b s = (Resolve (filled L now b s), pushed (filled L now b s) s)"
proof -
  have "previousBlockHash (filled L now b s) = hash (last (chain s))" if "chain s \<noteq> []"
    using that by (simp add: filled_def Let_def)
  then have "validateChain L (pushed (filled L now b s) s) = Resolve []"
    using assms by (simp add: validateChain_pushed valid_filled)
  then show ?thesis by (simp add: addBlock_eq)
qed

lemma chain_ok_pushed:
  assumes ok: "chain_ok L s"
    and v: "validateChain L (pushed (filled L now b s) s) = Resolve []"
  shows "chain_ok L (pushed (filled L now b s) s)"
proof -
  have h: "block.height (filled L now b s) = int (length (chain s))"
    using ok by (simp add: filled_def chain_ok_def Let_def)
  show ?thesis
    using ok v h by (simp add: chain_ok_def pushed_def nth_append)
qed

lemma addBlock_ok: "chain_ok L s \<Longrightarrow> chain_ok L (snd (addBlock L now b s))"
  using addBlock_cases [of L now b s] by (auto simp: chain_ok_pushed)

lemma Block_hash: "hash (Block L x) = None"
  by (simp add: Block_def)

lemma Blockchain_eq:
  "Blockchain L now =
     \<lparr>chain = [filled L now (Block L genesis_data) \<lparr>chain = [], height = - 1\<rparr>], height = 0\<rparr>"
proof -
  let ?e = "\<lparr>chain = [], height = - 1\<rparr>"
  have "validateChain L ?e = Resolve []"
    by (simp add: validateChain_empty)
  then have "addBlock L now (Block L genesis_data) ?e =
      (Resolve (filled L now (Block L genesis_data) ?e), pushed (filled L now (Block L genesis_data) ?e) ?e)"
    by (rule addBlock_fresh) (rule Block_hash)
  then show ?thesis
    by (simp add: Blockchain_def initializeChain_def pushed_def)
qed

lemma Blockchain_ok: "chain_ok L (Blockchain L now)"
proof -
  let ?e = "\<lparr>chain = [], height = - 1\<rparr>"
  let ?g = "filled L now (Block L genesis_data) ?e"
  have "valid_block L ?g"
    by (rule valid_filled) (rule Block_hash)
  moreover have "previousBlockHash ?g = None" "body ?g = Buffer_hex (stringify L genesis_data)"
    "block.height ?g = 0"
    by (simp_all add: filled_def Block_def Let_def)
  ultimately show ?thesis
    by (simp add: Blockchain_eq chain_ok_def validateChain_empty)
qed

lemma initializeChain_ok: "chain_ok L s \<Longrightarrow> chain_ok L (snd (initializeChain L now s))"
  by (simp add: initializeChain_def chain_ok_def)

lemma submitStar_state:
  "snd (submitStar L now now' address message signature star s) = s \<or>
   snd (submitStar L now now' address message signature star s) =
     snd (addBlock L now' (Block L (star_data address star)) s)"
  by (auto simp: submitStar_def Let_def split: sum.splits prod.splits outcome.splits)

lemma submitStar_ok:
  "chain_ok L s \<Longrightarrow> chain_ok L (snd (submitStar L now now' address message signature star s))"
  using submitStar_state [of L now now' address message signature star s]
  by (auto simp: addBlock_ok)

lemma step_ok: "chain_ok L s \<Longrightarrow> chain_ok L (step L s operation)"
  by (cases operation) (simp_all add: initializeChain_ok addBlock_ok submitStar_ok)

lemma foldl_step_ok: "chain_ok L s \<Longrightarrow> chain_ok L (foldl (step L) s ops)"
  by (induction ops arbitrary: s) (simp_all add: step_ok)

lemma run_chain_ok: "chain_ok L (run L now ops)"
  by (simp add: run_def foldl_step_ok Blockchain_ok)

subsection \<open>Digits, \<open>toString\<close> and \<open>parseInt\<close>\<close>

lemma digit_value_digit_char: "d < 16 \<Longrightarrow> digit_value (digit_char d) = Some d"
proof -
  assume d: "d < 16"
  have "\<forall>d \<in> set [0..<16]. digit_value (digit_char d) = Some d"
    by code_simp
  with d show ?thesis by simp
qed

lemma digit_facts:
  assumes "digit_value c = Some d" and "d < 16"
  shows "\<not> is_space c" and "c \<noteq> CHR ''-''" and "c \<noteq> CHR ''+''" and "c \<noteq> CHR ''x''"
    and "c \<noteq> CHR ''X''" and "is_digit 16 c"
  using assms
  by (auto simp: digit_value_def is_space_def is_digit_def Let_def split: if_splits)

lemma digits_value_snoc:
  "digits_value R (ds @ [c]) = digits_value R ds * int R + int (the (digit_value c))"
  by (simp add: digits_value_def)

lemma toString_digits:
  "0 \<le> n \<Longrightarrow>
     toString n \<noteq> [] \<and> list_all (is_digit 10) (toString n) \<and> digits_value 10 (toString n) = n"
proof (induction n rule: toString.induct)
  case (1 n)
  show ?case
  proof (cases "n < 10")
    case True
    with "1.prems" have d: "nat n < 16" by simp
    from True "1.prems" have t: "toString n = [digit_char (nat n)]"
      by (subst toString.simps) simp
    from True "1.prems" have "is_digit 10 (digit_char (nat n))"
      using digit_value_digit_char [OF d] by (simp add: is_digit_def)
    with True "1.prems" show ?thesis
      unfolding t using digit_value_digit_char [OF d]
      by (simp add: digits_value_def)
  next
    case False
    with "1.prems" have t: "toString n = toString (n div 10) @ [digit_char (nat (n mod 10))]"
      by (subst toString.simps) simp
    have d: "nat (n mod 10) < 16" by simp
    have d10: "nat (n mod 10) < 10" by simp
    from False "1.prems" have ih: "toString (n div 10) \<noteq> [] \<and>
        list_all (is_digit 10) (toString (n div 10)) \<and>
        digits_value 10 (toString (n div 10)) = n div 10"
      by (intro "1.IH"(2)) simp_all
    have "is_digit 10 (digit_char (nat (n mod 10)))"
      using digit_value_digit_char [OF d] d10 by (simp add: is_digit_def)
    then show ?thesis
      unfolding t using ih digit_value_digit_char [OF d] "1.prems"
      by (simp add: digits_value_snoc)
  qed
qed

lemma time_string_eq: "1000 \<le> now \<Longrightarrow> time_string now = toString (now div 1000)"
proof -
  assume n: "1000 \<le> now"
  have step: "toString m = toString (m div 10) @ [digit_char (nat (m mod 10))]" if "10 \<le> m" for m
    using that by (subst toString.simps) simp
  have "toString now = toString (now div 10) @ [digit_char (nat (now mod 10))]"
    using n by (intro step) simp
  also have "toString (now div 10) =
      toString (now div 10 div 10) @ [digit_char (nat (now div 10 mod 10))]"
    using n by (intro step) simp
  also have "toString (now div 10 div 10) =
      toString (now div 10 div 10 div 10) @ [digit_char (nat (now div 10 div 10 mod 10))]"
    using n by (intro step) simp
  finally have "toString now = toString (now div 10 div 10 div 10) @
      [digit_char (nat (now div 10 div 10 mod 10)), digit_char (nat (now div 10 mod 10)),
       digit_char (nat (now mod 10))]"
    by simp
  moreover have "now div 10 div 10 div 10 = now div 1000"
    by (simp add: div_mult2_eq [symmetric])
  ultimately show ?thesis
    by (simp add: time_string_def slice_0_m3_def)
qed

lemma parseInt_decimal:
  assumes "ds \<noteq> []" and "list_all (is_digit 10) ds"
  shows "parseInt_string None ds = Some (digits_value 10 ds)"
proof -
  obtain c cs where ds: "ds = c # cs" using assms(1) by (cases ds) auto
  from assms(2) ds obtain d where c: "digit_value c = Some d" "d < 10"
    by (auto simp: is_digit_def split: option.splits)
  then have d16: "d < 16" by simp
  note f = digit_facts [OF c(1) d16]
  have no0x: "\<not> has_0x ds"
  proof (cases cs)
    case Nil
    with ds show ?thesis by (simp add: has_0x_def)
  next
    case (Cons e es)
    with assms(2) ds obtain d' where e: "digit_value e = Some d'" "d' < 10"
      by (auto simp: is_digit_def split: option.splits)
    then have "d' < 16" by simp
    from digit_facts(4,5) [OF e(1) this] ds Cons show ?thesis
      by (simp add: has_0x_def)
  qed
  have tw: "takeWhile (is_digit 10) ds = ds"
    using assms(2) by (simp add: list_all_iff)
  show ?thesis
    using f no0x tw assms(1) by (simp add: parseInt_string_def ds Let_def)
qed

lemma parseInt_toString: "0 \<le> n \<Longrightarrow> parseInt_string None (toString n) = Some n"
  using toString_digits [of n] by (simp add: parseInt_decimal)

lemma currentTime_eq: "1000 \<le> now \<Longrightarrow> parseInt (Some (time_string now)) = Some (now div 1000)"
  by (simp add: parseInt_def time_string_eq parseInt_toString)

subsection \<open>The body encoding\<close>

lemma parseInt_hex_byte:
  assumes "0 \<le> n" and "n < 256"
  shows "parseInt_string (Some 16) (hex_byte n) = Some n"
proof -
  have hi: "nat (n div 16) < 16" using assms by simp
  have lo: "nat (n mod 16) < 16" by simp
  note vh = digit_value_digit_char [OF hi]
  note vl = digit_value_digit_char [OF lo]
  note fh = digit_facts [OF vh hi]
  note fl = digit_facts [OF vl lo]
  have nn: "0 \<le> n div 16" "0 \<le> n mod 16"
    using assms by (simp_all add: pos_imp_zdiv_nonneg_iff)
  have "digits_value 16 [digit_char (nat (n div 16)), digit_char (nat (n mod 16))] = n"
    using vh vl nn by (simp add: digits_value_def)
  then show ?thesis
    using fh fl by (simp add: parseInt_string_def hex_byte_def has_0x_def Let_def)
qed

lemma hex2ascii_Buffer_hex: "ascii_text t \<Longrightarrow> hex2ascii (Buffer_hex t) = t"
proof (induction t)
  case Nil
  show ?case by (simp add: hex2ascii_def Buffer_hex_def)
next
  case (Cons c t)
  let ?n = "of_char c :: int"
  from Cons.prems have n: "0 < ?n" "?n < 128" and t: "ascii_text t"
    by (simp_all add: ascii_text_def)
  have hi: "nat (?n div 16) < 16" using n by simp
  have lo: "nat (?n mod 16) < 16" by simp
  note fh = digit_facts [OF digit_value_digit_char [OF hi] hi]
  note fl = digit_facts [OF digit_value_digit_char [OF lo] lo]
  have enc: "Buffer_hex (c # t) =
      digit_char (nat (?n div 16)) # digit_char (nat (?n mod 16)) # Buffer_hex t"
    using n by (simp add: Buffer_hex_def utf8_def hex_byte_def)
  have p: "parseInt_string (Some 16) [digit_char (nat (?n div 16)), digit_char (nat (?n mod 16))] =
      Some ?n"
    using parseInt_hex_byte [of ?n] n by (simp add: hex_byte_def)
  have "?n mod 65536 = ?n"
    using n by simp
  then have ch: "fromCharCode ?n = c"
    by (simp add: fromCharCode_def)
  from Cons.IH [OF t] have ih: "hex2ascii (Buffer_hex t) = t" .
  show ?case
    unfolding enc using fh(1) fl(1) p ch n ih
    by (simp add: hex2ascii_def)
qed

subsection \<open>submitStar\<close>

lemma run_append_ok:
  assumes "s = run L t ops"
  shows "addBlock L now (Block L x) s =
           (Resolve (filled L now (Block L x) s), pushed (filled L now (Block L x) s) s)"
    and "block.height (filled L now (Block L x) s) \<noteq> 0"
    and "body (filled L now (Block L x) s) = Buffer_hex (stringify L x)"
proof -
  have ok: "chain_ok L s"
    unfolding assms by (rule run_chain_ok)
  then have "validateChain L s = Resolve []"
    by (simp add: chain_ok_def)
  then show "addBlock L now (Block L x) s =
      (Resolve (filled L now (Block L x) s), pushed (filled L now (Block L x) s) s)"
    by (rule addBlock_fresh) (rule Block_hash)
  from ok show "block.height (filled L now (Block L x) s) \<noteq> 0"
    by (simp add: filled_def chain_ok_def Let_def)
  show "body (filled L now (Block L x) s) = Buffer_hex (stringify L x)"
    by (simp add: filled_def Block_def Let_def)
qed

lemma getBData_encoded:
  assumes "block.height b \<noteq> 0" and "body b = Buffer_hex (stringify L x)"
    and "ascii_text (stringify L x)" and "parse L (stringify L x) = Inr x"
  shows "getBData L b = Resolve x"
  using assms by (simp add: getBData_def hex2ascii_Buffer_hex Let_def)

subsection \<open>getStarsByWalletAddress\<close>

lemma getStars_any_address:
  "getStarsByWalletAddress L address s = Resolve (drop 1 (chain s))"
proof (cases "chain s")
  case Nil
  then show ?thesis
    by (simp add: getStarsByWalletAddress_def)
next
  case (Cons g bs)
  have "filter (\<lambda>(index, block). index > 0 \<and> truthy_promise (getBData L block)) (enumerate (Suc 0) bs)
      = enumerate (Suc 0) bs"
    by (rule filter_True) (auto simp: in_set_enumerate_eq truthy_promise_def)
  with Cons show ?thesis
    by (simp add: getStarsByWalletAddress_def truthy_promise_def)
qed

subsection \<open>What \<open>validateChain\<close> delivers\<close>

lemma validateChain_delivers:
  "\<exists>errorLog. validateChain L s = Resolve errorLog \<and>
     (\<forall>i < length (chain s). \<not> valid_block L (chain s ! i) \<longrightarrow>
        not_valid_message L (chain s ! i) \<in> set errorLog) \<and>
     (\<forall>i. 0 < i \<and> i < length (chain s) \<and>
          previousBlockHash (chain s ! i) \<noteq> hash (chain s ! (i - 1)) \<longrightarrow>
        link_message (chain s ! (i - 1)) (chain s ! i) \<in> set errorLog)"
proof -
  let ?c = "chain s"
  have "not_valid_message L (?c ! i) \<in> set (invalid_errors L ?c)"
    if "i < length ?c" "\<not> valid_block L (?c ! i)" for i
    using that by (intro invalid_errors_mem) simp_all
  moreover have "link_message (?c ! (i - 1)) (?c ! i) \<in> set (link_errors ?c (enumerate 0 ?c))"
    if "0 < i" "i < length ?c" "previousBlockHash (?c ! i) \<noteq> hash (?c ! (i - 1))" for i
    using that by (intro link_errors_mem) (simp_all add: in_set_enumerate0)
  ultimately show ?thesis
    by (simp add: validateChain_eq)
qed

lemma executor_resolves_with_links_only:
  "fst (validateChain_executor L s) = link_errors (chain s) (enumerate 0 (chain s))"
  by (simp add: validateChain_executor_eq)

subsection \<open>The example values\<close>

lemma chain0_run: "run demo 1700000000123 [] = chain0"
  by code_simp


lemma challenge_request:
  "requestMessageOwnershipVerification 1700000000123 alice = Resolve challenge"
  by code_simp

lemma challenge_timestamp: "parseInt (index (split_colon challenge) 1) = Some 1700000000"
  by code_simp

lemma vega_text:
  "ascii_text (stringify demo (star_data alice (JStr ''Vega'')))"
  "parse demo (stringify demo (star_data alice (JStr ''Vega''))) = Inr (star_data alice (JStr ''Vega''))"
  by code_simp+


lemma filled_vega:
  "filled demo 1700000010456 (Block demo (star_data alice (JStr ''Vega''))) chain0 = star1"
  by code_simp

section \<open>The claims\<close>





text \<open>
  C3. When \<open>_addBlock\<close> resolves with a block, \<open>validate()\<close> on that block
  resolves with true.
\<close>

theorem addBlock_validates:
  "fst (addBlock L now b s) = Resolve b' \<Longrightarrow> validate L b' = (Resolve True, b')"
proof -
  assume r: "fst (addBlock L now b s) = Resolve b'"
  from addBlock_cases [of L now b s] r
  have b': "b' = filled L now b s"
    and v: "validateChain L (pushed (filled L now b s) s) = Resolve []"
    by auto
  from v have "valid_block L (filled L now b s)"
    by (simp add: validateChain_pushed)
  with b' show ?thesis
    by (simp add: validate_def valid_block_def Let_def)
qed

theorem addBlock_validates_witness:
  "fst (addBlock demo 1700000010456 (Block demo (star_data alice (JStr ''Vega''))) chain0) =
     Resolve star1 \<and>
   validate demo star1 = (Resolve True, star1)"
proof -
  have "addBlock demo 1700000010456 (Block demo (star_data alice (JStr ''Vega''))) chain0 =
      (Resolve star1, chain1)"
    by code_simp
  then have r: "fst (addBlock demo 1700000010456 (Block demo (star_data alice (JStr ''Vega''))) chain0) =
      Resolve star1"
    by simp
  from r addBlock_validates [OF r] show ?thesis ..
qed

text \<open>
  C4. The executor of \<open>validateChain\<close> calls \<open>resolve(errorLog)\<close> before any
  outcome of a block's \<open>validate()\<close> has been collected. In the chain whose
  block at height 1 was overwritten, the list is empty at that moment although
  the block does not validate; the entry for the block is pushed afterwards, by
  the queued job, into the array the promise was resolved with.
\<close>

theorem validateChain_resolves_early:
  "fst (validate demo (chain tampered ! 1)) = Resolve False \<and>
   fst (validateChain_executor demo tampered) = [] \<and>
   validateChain demo tampered = Resolve [not_valid_message demo (chain tampered ! 1)]"
  by code_simp

text \<open>
  C5. \<open>getStarsByWalletAddress\<close> resolves with every block after the genesis
  block, whatever the address: asked for an address that owns nothing it returns
  the block of another owner, where the spec's words give the empty list, and it
  returns blocks, not their decoded stars.
\<close>

theorem getStars_returns_foreign_block:
  "getStarsByWalletAddress demo ''1Bob'' chain1 = Resolve [star1] \<and>
   spec_stars demo ''1Bob'' (chain chain1) = [] \<and>
   getStarsByWalletAddress demo alice chain1 = Resolve [star1] \<and>
   spec_stars demo alice (chain chain1) = [JStr ''Vega'']"
  by code_simp

text \<open>
  C6. Where \<open>bitcoinMessage.verify\<close> throws, \<open>submitStar\<close> gives none of the
  three errors: the exception leaves the \<open>async\<close> executor and the promise is
  never settled. A message 300 seconds old with a malformed signature is not
  answered with the expired-message text, and one ten seconds old is not answered
  with the signature text. And a star with the character U+00E9, properly signed,
  is appended as a block that decodes to a different payload.
\<close>

theorem submitStar_unsettled:
  "minus_num (parseInt (Some (time_string 1700000300123))) (parseInt (index (split_colon challenge) 1))
     = Some 300 \<and>
   fst (submitStar demo 1700000300123 1700000300456 alice challenge ''x'' (JStr ''Vega'') chain0)
     \<noteq> Reject (Message expired_message) \<and>
   fst (submitStar demo 1700000010123 1700000010456 alice challenge ''x'' (JStr ''Vega'') chain0)
     \<noteq> Reject (Message signature_message) \<and>
   (case submitStar demo 1700000010123 1700000010456 alice challenge
           (toy_signature alice challenge) e_acute chain0 of
      (Resolve b, s) \<Rightarrow> getBData demo b = Resolve (star_data alice (JStr [CHR 0xC3, CHR 0xA9]))
    | (Reject f, s) \<Rightarrow> False
    | (Unsettled f, s) \<Rightarrow> False)"
  by code_simp

text \<open>
  What \<open>submitStar\<close> does when \<open>verify\<close> returns and the message carries a
  timestamp: it rejects with the future-message text when the timestamp is later
  than the current time in seconds, with the expired-message text when 300 seconds
  or more have passed, and with the signature text when \<open>verify\<close> returned false.
  Otherwise, on a chain built by the operations, it appends a block and resolves
  with it; the body of the block is the encoding of \<open>{owner: address, star: star}\<close>,
  and \<open>getBData()\<close> on it returns that payload when its JSON text is ASCII without
  NUL and \<open>JSON.parse\<close> gives the payload back from the text.
\<close>

lemma submitStar_window:
  assumes "verify L message address signature = Inr ok"
    and "parseInt (index (split_colon message) 1) = Some ts"
    and "1000 \<le> now"
  shows
    "(now div 1000 < ts \<longrightarrow>
        submitStar L now now' address message signature star s =
          (Reject (Message future_message), s)) \<and>
     (ts \<le> now div 1000 \<and> 300 \<le> now div 1000 - ts \<longrightarrow>
        submitStar L now now' address message signature star s =
          (Reject (Message expired_message), s)) \<and>
     (ts \<le> now div 1000 \<and> now div 1000 - ts < 300 \<and> \<not> ok \<longrightarrow>
        submitStar L now now' address message signature star s =
          (Reject (Message signature_message), s)) \<and>
     (ts \<le> now div 1000 \<and> now div 1000 - ts < 300 \<and> ok \<and> s = run L t ops \<longrightarrow>
        submitStar L now now' address message signature star s =
          (Resolve (filled L now' (Block L (star_data address star)) s),
           pushed (filled L now' (Block L (star_data address star)) s) s) \<and>
        body (filled L now' (Block L (star_data address star)) s) =
          Buffer_hex (stringify L (star_data address star)) \<and>
        (ascii_text (stringify L (star_data address star)) \<and>
         parse L (stringify L (star_data address star)) = Inr (star_data address star) \<longrightarrow>
           getBData L (filled L now' (Block L (star_data address star)) s) =
             Resolve (star_data address star)))"
proof -
  let ?x = "star_data address star"
  have e: "minus_num (parseInt (Some (time_string now))) (parseInt (index (split_colon message) 1)) =
      Some (now div 1000 - ts)"
    using assms by (simp add: currentTime_eq minus_num_def)
  have future: "submitStar L now now' address message signature star s =
      (Reject (Message future_message), s)" if "now div 1000 < ts"
    unfolding submitStar_def Let_def e using that assms(1) by (simp add: less_num_def)
  have expired: "submitStar L now now' address message signature star s =
      (Reject (Message expired_message), s)" if "ts \<le> now div 1000" "300 \<le> now div 1000 - ts"
    unfolding submitStar_def Let_def e using that assms(1) by (simp add: less_num_def ge_num_def)
  have unsigned: "submitStar L now now' address message signature star s =
      (Reject (Message signature_message), s)"
    if "ts \<le> now div 1000" "now div 1000 - ts < 300" "\<not> ok"
    unfolding submitStar_def Let_def e using that assms(1) by (simp add: less_num_def ge_num_def)
  have appended: "submitStar L now now' address message signature star s =
      (Resolve (filled L now' (Block L ?x) s), pushed (filled L now' (Block L ?x) s) s)"
    if "ts \<le> now div 1000" "now div 1000 - ts < 300" "ok" "s = run L t ops"
    unfolding submitStar_def Let_def e
    using that assms(1) run_append_ok(1) [OF that(4), of now' ?x]
    by (simp add: less_num_def ge_num_def)
  have decoded: "getBData L (filled L now' (Block L ?x) s) = Resolve ?x"
    if "s = run L t ops" "ascii_text (stringify L ?x)" "parse L (stringify L ?x) = Inr ?x"
    using run_append_ok(2,3) [OF that(1), of now' ?x] that(2,3)
    by (rule getBData_encoded)
  have "body (filled L now' (Block L ?x) s) = Buffer_hex (stringify L ?x)"
    by (simp add: filled_def Block_def Let_def)
  with future expired unsigned appended decoded show ?thesis
    by blast
qed

lemma submitStar_window_example:
  "submitStar demo 1699999999999 1699999999999 alice challenge ''signed:nobody'' (JStr ''Vega'') chain0 =
     (Reject (Message future_message), chain0) \<and>
   submitStar demo 1700000300123 1700000300456 alice challenge
       (toy_signature alice challenge) (JStr ''Vega'') chain0 =
     (Reject (Message expired_message), chain0) \<and>
   submitStar demo 1700000299999 1700000300456 alice challenge ''signed:nobody'' (JStr ''Vega'') chain0 =
     (Reject (Message signature_message), chain0) \<and>
   submitStar demo 1700000010123 1700000010456 alice challenge
       (toy_signature alice challenge) (JStr ''Vega'') chain0 =
     (Resolve star1, chain1) \<and>
   body star1 = Buffer_hex (stringify demo (star_data alice (JStr ''Vega''))) \<and>
   getBData demo star1 = Resolve (star_data alice (JStr ''Vega''))"
proof -
  have good: "verify demo challenge alice (toy_signature alice challenge) = Inr True"
    by code_simp
  have bad: "verify demo challenge alice ''signed:nobody'' = Inr False"
    by code_simp
  have p: "pushed star1 chain0 = chain1"
    by (simp add: pushed_def chain0_def chain1_def)
  note future = submitStar_window [OF bad challenge_timestamp, where now = 1699999999999
      and now' = 1699999999999 and star = "JStr ''Vega''" and s = chain0
      and t = 1700000000123 and ops = "[]"]
  note expired = submitStar_window [OF good challenge_timestamp, where now = 1700000300123
      and now' = 1700000300456 and star = "JStr ''Vega''" and s = chain0
      and t = 1700000000123 and ops = "[]"]
  note unsigned = submitStar_window [OF bad challenge_timestamp, where now = 1700000299999
      and now' = 1700000300456 and star = "JStr ''Vega''" and s = chain0
      and t = 1700000000123 and ops = "[]"]
  note appended = submitStar_window [OF good challenge_timestamp, where now = 1700000010123
      and now' = 1700000010456 and star = "JStr ''Vega''" and s = chain0
      and t = 1700000000123 and ops = "[]"]
  from future have "submitStar demo 1699999999999 1699999999999 alice challenge ''signed:nobody''
      (JStr ''Vega'') chain0 = (Reject (Message future_message), chain0)"
    by simp
  moreover from expired have "submitStar demo 1700000300123 1700000300456 alice challenge
      (toy_signature alice challenge) (JStr ''Vega'') chain0 = (Reject (Message expired_message), chain0)"
    by simp
  moreover from unsigned have "submitStar demo 1700000299999 1700000300456 alice challenge
      ''signed:nobody'' (JStr ''Vega'') chain0 = (Reject (Message signature_message), chain0)"
    by simp
  moreover from appended have "submitStar demo 1700000010123 1700000010456 alice challenge
        (toy_signature alice challenge) (JStr ''Vega'') chain0 = (Resolve star1, chain1) \<and>
      body star1 = Buffer_hex (stringify demo (star_data alice (JStr ''Vega''))) \<and>
      getBData demo star1 = Resolve (star_data alice (JStr ''Vega''))"
    using vega_text by (simp add: chain0_run filled_vega p)
  ultimately show ?thesis by blast
qed







text \<open>
  C10. \<open>getBData()\<close> parses before it looks at the height: on a block of height 0
  whose decoded body \<open>JSON.parse\<close> refuses, the promise rejects with the parse
  error and not with the genesis text; and whenever it rejects with the genesis
  text, the height is 0 and the body did parse.
\<close>

theorem getBData_parses_first:
  "(block.height b = 0 \<and> parse L (hex2ascii (body b)) = Inl e \<longrightarrow>
      getBData L b = Reject (Thrown e) \<and> getBData L b \<noteq> Reject (Message genesis_message)) \<and>
   (getBData L b = Reject (Message genesis_message) \<longrightarrow>
      block.height b = 0 \<and> (\<exists>data. parse L (hex2ascii (body b)) = Inr data))"
  by (auto simp: getBData_def Let_def split: sum.splits if_splits)

theorem getBData_parses_first_witness:
  "block.height truncated_block = 0 \<and>
   parse demo (hex2ascii (body truncated_block)) = Inl syntax_error \<and>
   getBData demo truncated_block = Reject (Thrown syntax_error) \<and>
   getBData demo genesis0 = Reject (Message genesis_message) \<and>
   block.height genesis0 = 0 \<and>
   (\<exists>data. parse demo (hex2ascii (body genesis0)) = Inr data)"
proof -
  have h: "block.height truncated_block = 0"
    by code_simp
  have p: "parse demo (hex2ascii (body truncated_block)) = Inl syntax_error"
    by code_simp
  have g: "getBData demo genesis0 = Reject (Message genesis_message)"
    by code_simp
  note first = getBData_parses_first [where b = truncated_block and L = demo and e = syntax_error]
  note second = getBData_parses_first [where b = genesis0 and L = demo and e = syntax_error]
  from first h p have "getBData demo truncated_block = Reject (Thrown syntax_error)"
    by simp
  moreover from second g
  have "block.height genesis0 = 0 \<and> (\<exists>data. parse demo (hex2ascii (body genesis0)) = Inr data)"
    by simp
  ultimately show ?thesis
    using h p g by blast
qed

end
